theory Spec2Isabelle
  imports Complex_Main
begin

section \<open>JavaScript values used by the lead scoring engine\<close>

text \<open>
  The engine of \<^verbatim>\<open>server.js\<close> (class \<^verbatim>\<open>JobAnalysisEngine\<close>) and the batch route are
  embedded as HOL functions. A JavaScript number is an IEEE-754 binary64 value: the finite
  ones are modelled by the rationals they denote, and every arithmetic result is rounded to
  the nearest representable value (ties to even) by \<open>d64\<close>. Strings are lists of 8-bit
  characters and \<^verbatim>\<open>toLowerCase\<close> folds the ASCII letters. Signed zero is not distinguished.

  The fields of the input have the types of the data model: a title, an industry and a
  location are strings or absent, \<^verbatim>\<open>employees\<close> is a number or absent, and an \<^verbatim>\<open>id\<close> is any
  JSON scalar. An absent field is \<open>None\<close> (or \<open>VUndefined\<close>).
\<close>

datatype jsnum = NaN | NegInf | Fin rat | PosInf

datatype jsval = VUndefined | VNull | VNumber jsnum | VString string | VObject

datatype error = TypeError

subsection \<open>Rounding to binary64\<close>

fun bitlength :: "nat \<Rightarrow> nat" where
  "bitlength n = (if n = 0 then 0 else Suc (bitlength (n div 2)))"

declare bitlength.simps [simp del]

text \<open>\<open>ilog2 x\<close> is the binary exponent of a positive rational: \<open>2 ^ e \<le> x < 2 ^ (e + 1)\<close>.\<close>

definition ilog2 :: "rat \<Rightarrow> int" where
  "ilog2 x = (if 1 \<le> x then int (bitlength (nat \<lfloor>x\<rfloor>)) - 1
              else - int (bitlength (nat (\<lceil>1 / x\<rceil> - 1))))"

definition roundHalfEven :: "rat \<Rightarrow> int" where
  "roundHalfEven m = (let f = \<lfloor>m\<rfloor>; r = m - of_int f in
     if r < 1 / 2 then f else if 1 / 2 < r then f + 1 else if even f then f else f + 1)"

definition pow2 :: "int \<Rightarrow> rat" where
  "pow2 q = (if 0 \<le> q then 2 ^ nat q else 1 / 2 ^ nat (- q))"

text \<open>
  The nearest binary64 value of a rational in the normal range: a 53-bit significand
  scaled by a power of two. (Overflow and subnormals do not occur for the magnitudes the
  score computation produces, which lie between 0 and 138.)
\<close>

definition d64 :: "rat \<Rightarrow> rat" where
  "d64 x = (if x = 0 then 0 else
     let q = ilog2 \<bar>x\<bar> - 52 in of_int (roundHalfEven (x / pow2 q)) * pow2 q)"

text \<open>A decimal literal of the source denotes the nearest binary64 value.\<close>

definition lit :: "rat \<Rightarrow> jsnum" where
  "lit r = Fin (d64 r)"

definition ofInt :: "int \<Rightarrow> jsnum" where
  "ofInt i = Fin (of_int i)"

subsection \<open>Operators\<close>

fun js_le :: "jsnum \<Rightarrow> jsnum \<Rightarrow> bool" where
  "js_le NaN b = False"
| "js_le a NaN = False"
| "js_le NegInf b = True"
| "js_le a PosInf = True"
| "js_le (Fin a) (Fin b) = (a \<le> b)"
| "js_le (Fin a) NegInf = False"
| "js_le PosInf b = False"

definition js_ge :: "jsnum \<Rightarrow> jsnum \<Rightarrow> bool" where
  "js_ge a b = js_le b a"

fun js_mul :: "jsnum \<Rightarrow> jsnum \<Rightarrow> jsnum" where
  "js_mul NaN b = NaN"
| "js_mul a NaN = NaN"
| "js_mul (Fin a) (Fin b) = Fin (d64 (a * b))"
| "js_mul (Fin a) PosInf = (if a = 0 then NaN else if 0 < a then PosInf else NegInf)"
| "js_mul (Fin a) NegInf = (if a = 0 then NaN else if 0 < a then NegInf else PosInf)"
| "js_mul PosInf (Fin b) = (if b = 0 then NaN else if 0 < b then PosInf else NegInf)"
| "js_mul NegInf (Fin b) = (if b = 0 then NaN else if 0 < b then NegInf else PosInf)"
| "js_mul PosInf PosInf = PosInf"
| "js_mul NegInf NegInf = PosInf"
| "js_mul PosInf NegInf = NegInf"
| "js_mul NegInf PosInf = NegInf"

fun js_div :: "jsnum \<Rightarrow> jsnum \<Rightarrow> jsnum" where
  "js_div NaN b = NaN"
| "js_div a NaN = NaN"
| "js_div (Fin a) (Fin b) =
     (if b = 0 then (if a = 0 then NaN else if 0 < a then PosInf else NegInf)
      else Fin (d64 (a / b)))"
| "js_div (Fin a) PosInf = Fin 0"
| "js_div (Fin a) NegInf = Fin 0"
| "js_div PosInf (Fin b) = (if 0 \<le> b then PosInf else NegInf)"
| "js_div NegInf (Fin b) = (if 0 \<le> b then NegInf else PosInf)"
| "js_div PosInf b = NaN"
| "js_div NegInf b = NaN"

text \<open>\<^verbatim>\<open>Math.min\<close> of two numbers and \<^verbatim>\<open>Math.round\<close> (nearest integer, ties towards
  \<open>+\<infinity>\<close>).\<close>

fun math_min :: "jsnum \<Rightarrow> jsnum \<Rightarrow> jsnum" where
  "math_min NaN b = NaN"
| "math_min a NaN = NaN"
| "math_min a b = (if js_le a b then a else b)"

fun math_round :: "jsnum \<Rightarrow> jsnum" where
  "math_round (Fin r) = Fin (of_int \<lfloor>r + 1 / 2\<rfloor>)"
| "math_round a = a"

text \<open>\<^verbatim>\<open>ToNumber\<close> and truthiness, on the values that reach them here. The only objects
  are those inherited from \<^verbatim>\<open>Object.prototype\<close>; they convert to \<^verbatim>\<open>NaN\<close>.\<close>

fun toNumber :: "jsval \<Rightarrow> jsnum" where
  "toNumber (VNumber n) = n"
| "toNumber VNull = Fin 0"
| "toNumber v = NaN"

fun truthy :: "jsval \<Rightarrow> bool" where
  "truthy VUndefined = False"
| "truthy VNull = False"
| "truthy (VNumber NaN) = False"
| "truthy (VNumber (Fin r)) = (r \<noteq> 0)"
| "truthy (VNumber n) = True"
| "truthy (VString s) = (s \<noteq> [])"
| "truthy VObject = True"

text \<open>\<^verbatim>\<open>a || b\<close>\<close>

definition js_or :: "jsval \<Rightarrow> jsval \<Rightarrow> jsval" where
  "js_or a b = (if truthy a then a else b)"

subsection \<open>Strings\<close>

definition lowerChar :: "char \<Rightarrow> char" where
  "lowerChar c = (let n = (of_char c :: nat) in
     if 65 \<le> n \<and> n \<le> 90 then char_of (n + 32) else c)"

definition toLowerCase :: "string \<Rightarrow> string" where
  "toLowerCase s = map lowerChar s"

fun startsWith :: "string \<Rightarrow> string \<Rightarrow> bool" where
  "startsWith s [] = True"
| "startsWith [] (k # ks) = False"
| "startsWith (c # cs) (k # ks) = (c = k \<and> startsWith cs ks)"

text \<open>\<^verbatim>\<open>s.includes(k)\<close>\<close>

fun str_includes :: "string \<Rightarrow> string \<Rightarrow> bool" where
  "str_includes [] k = (k = [])"
| "str_includes (c # cs) k = (startsWith (c # cs) k \<or> str_includes cs k)"

text \<open>A string-valued field defaulted with \<^verbatim>\<open>field || 'unknown'\<close>; \<open>None\<close> is an absent
  field.\<close>

fun orUnknown :: "string option \<Rightarrow> string" where
  "orUnknown None = ''unknown''"
| "orUnknown (Some s) = (if s = [] then ''unknown'' else s)"

section \<open>The analysis engine\<close>

subsection \<open>Tables of the constructor\<close>

text \<open>\<^verbatim>\<open>Object.entries\<close> lists the own string keys in insertion order, so each table is
  the association list of its literal.\<close>

definition jobTitleWeights :: "(string \<times> int) list" where
  "jobTitleWeights =
    [(''ceo'', 100), (''chief executive officer'', 100),
     (''cto'', 95), (''chief technology officer'', 95),
     (''cfo'', 95), (''chief financial officer'', 95),
     (''vp'', 90), (''vice president'', 90),
     (''director'', 85), (''senior director'', 87),
     (''manager'', 70), (''senior manager'', 75),
     (''lead'', 65), (''senior lead'', 68),
     (''specialist'', 50), (''senior specialist'', 55),
     (''analyst'', 45), (''senior analyst'', 50),
     (''coordinator'', 40), (''associate'', 35),
     (''assistant'', 30), (''intern'', 20)]"

definition departmentWeights :: "(string \<times> int) list" where
  "departmentWeights =
    [(''sales'', 95), (''business development'', 90),
     (''marketing'', 85), (''product'', 80),
     (''engineering'', 75), (''technology'', 75),
     (''operations'', 70), (''finance'', 65),
     (''hr'', 60), (''human resources'', 60),
     (''legal'', 55), (''admin'', 40)]"

record tierData =
  weight :: int
  employee_range :: "jsnum \<times> jsnum"

definition companyTiers :: "(string \<times> tierData) list" where
  "companyTiers =
    [(''enterprise'', \<lparr>weight = 100, employee_range = (Fin 1000, PosInf)\<rparr>),
     (''large'', \<lparr>weight = 85, employee_range = (Fin 250, Fin 999)\<rparr>),
     (''medium'', \<lparr>weight = 70, employee_range = (Fin 50, Fin 249)\<rparr>),
     (''small'', \<lparr>weight = 55, employee_range = (Fin 10, Fin 49)\<rparr>),
     (''startup'', \<lparr>weight = 40, employee_range = (Fin 1, Fin 9)\<rparr>)]"

subsection \<open>analyzeJobTitle\<close>

record jobAnalysis =
  score :: int
  level :: string
  department :: string

text \<open>The first loop, with its state \<open>(bestScore, level)\<close>.\<close>

fun levelLoop :: "string \<Rightarrow> (string \<times> int) list \<Rightarrow> int \<times> string \<Rightarrow> int \<times> string" where
  "levelLoop t [] st = st"
| "levelLoop t ((keyword, w) # rest) (bestScore, lvl) =
     levelLoop t rest
       (if str_includes t keyword then
          (if w > bestScore then
             (w, if w \<ge> 90 then ''c_level''
                 else if w \<ge> 80 then ''director''
                 else if w \<ge> 65 then ''manager''
                 else if w \<ge> 45 then ''specialist''
                 else ''individual_contributor'')
           else (bestScore, lvl))
        else (bestScore, lvl))"

text \<open>The second loop, which breaks at the first hit.\<close>

fun departmentLoop :: "string \<Rightarrow> (string \<times> int) list \<Rightarrow> string \<Rightarrow> string" where
  "departmentLoop t [] dep = dep"
| "departmentLoop t ((dept, w) # rest) dep =
     (if str_includes t dept then dept else departmentLoop t rest dep)"

text \<open>The title is a string or absent (\<open>None\<close>); \<^verbatim>\<open>!title\<close> holds for the absent and for
  the empty title.\<close>

definition analyzeJobTitle :: "string option \<Rightarrow> jobAnalysis" where
  "analyzeJobTitle title =
     (case title of
        None \<Rightarrow> \<lparr>score = 0, level = ''unknown'', department = ''unknown''\<rparr>
      | Some s \<Rightarrow>
          if s = [] then \<lparr>score = 0, level = ''unknown'', department = ''unknown''\<rparr>
          else
            let normalizedTitle = toLowerCase s;
                (bestScore, lvl) =
                   levelLoop normalizedTitle jobTitleWeights (0, ''individual_contributor'');
                dep = departmentLoop normalizedTitle departmentWeights ''unknown''
            in \<lparr>score = bestScore, level = lvl, department = dep\<rparr>)"

subsection \<open>analyzeCompany\<close>

record company =
  name :: "string option"
  employees :: "jsnum option"
  industry :: "string option"
  location :: "string option"

record companyAnalysis =
  tier :: string
  weight :: int
  employees :: "jsnum option"
  industry :: string
  location :: string

text \<open>A comparison converts an absent \<^verbatim>\<open>employees\<close> (\<^verbatim>\<open>undefined\<close>) to \<^verbatim>\<open>NaN\<close>.\<close>

fun numberOf :: "jsnum option \<Rightarrow> jsnum" where
  "numberOf None = NaN"
| "numberOf (Some n) = n"

fun tierLoop :: "jsnum option \<Rightarrow> (string \<times> tierData) list \<Rightarrow> string \<times> int \<Rightarrow> string \<times> int" where
  "tierLoop e [] st = st"
| "tierLoop e ((tierName, td) # rest) st =
     (let (mn, mx) = employee_range td in
      if js_ge (numberOf e) mn \<and> js_le (numberOf e) mx then (tierName, tierData.weight td)
      else tierLoop e rest st)"

definition analyzeCompany :: "company \<Rightarrow> companyAnalysis" where
  "analyzeCompany companyData =
     (let (t, w) = tierLoop (company.employees companyData) companyTiers (''startup'', 40)
      in \<lparr>tier = t, weight = w,
          employees = company.employees companyData,
          industry = orUnknown (company.industry companyData),
          location = orUnknown (company.location companyData)\<rparr>)"

subsection \<open>calculateLeadScore\<close>

record job =
  title :: "string option"

record leadAnalysis =
  totalScore :: jsnum
  jobAnalysis :: jobAnalysis
  companyAnalysis :: companyAnalysis
  priority :: string

definition industryMultipliers :: "(string \<times> jsnum) list" where
  "industryMultipliers =
    [(''technology'', lit (11 / 10)),
     (''software'', lit (11 / 10)),
     (''saas'', lit (115 / 100)),
     (''finance'', lit (105 / 100)),
     (''healthcare'', lit (105 / 100)),
     (''manufacturing'', lit (95 / 100)),
     (''retail'', lit (9 / 10))]"

text \<open>The property names that an object literal inherits from \<^verbatim>\<open>Object.prototype\<close>;
  each is bound to a function or an object.\<close>

definition objectPrototype :: "string list" where
  "objectPrototype =
    [''constructor'', ''__defineGetter__'', ''__defineSetter__'', ''hasOwnProperty'',
     ''__lookupGetter__'', ''__lookupSetter__'', ''isPrototypeOf'', ''propertyIsEnumerable'',
     ''toString'', ''valueOf'', ''__proto__'', ''toLocaleString'']"

text \<open>\<^verbatim>\<open>obj[key]\<close> on an object literal of numbers: an own property, else an inherited
  one, else \<^verbatim>\<open>undefined\<close>.\<close>

definition getProperty :: "(string \<times> jsnum) list \<Rightarrow> string \<Rightarrow> jsval" where
  "getProperty obj key =
     (case map_of obj key of
        Some n \<Rightarrow> VNumber n
      | None \<Rightarrow> if key \<in> set objectPrototype then VObject else VUndefined)"

fun getPriorityLevel :: "jsnum \<Rightarrow> string" where
  "getPriorityLevel s =
     (if js_ge s (Fin 80) then ''high''
      else if js_ge s (Fin 60) then ''medium''
      else if js_ge s (Fin 40) then ''low''
      else ''very_low'')"

text \<open>The local variable \<^verbatim>\<open>score\<close> after the cap, from the two analyses.\<close>

definition cappedScore :: "jobAnalysis \<Rightarrow> companyAnalysis \<Rightarrow> jsnum" where
  "cappedScore ja ca =
     (let s0 = ofInt (score ja);
          s1 = js_mul s0 (js_div (ofInt (companyAnalysis.weight ca)) (Fin 100));
          s2 = (if department ja = ''sales'' \<or> department ja = ''business development''
                then js_mul s1 (lit (12 / 10)) else s1);
          industryKey = toLowerCase (companyAnalysis.industry ca);
          industryMultiplier = js_or (getProperty industryMultipliers industryKey) (VNumber (lit 1));
          s3 = js_mul s2 (toNumber industryMultiplier)
      in math_min s3 (Fin 100))"

text \<open>\<open>None\<close> is an absent \<^verbatim>\<open>job\<close> or \<^verbatim>\<open>company\<close> object: reading \<^verbatim>\<open>jobData.title\<close>, or
  destructuring \<^verbatim>\<open>companyData\<close>, throws a \<^verbatim>\<open>TypeError\<close>.\<close>

definition calculateLeadScore :: "job option \<Rightarrow> company option \<Rightarrow> error + leadAnalysis" where
  "calculateLeadScore jobData companyData =
     (case jobData of
        None \<Rightarrow> Inl TypeError
      | Some j \<Rightarrow>
          (case companyData of
             None \<Rightarrow> Inl TypeError
           | Some c \<Rightarrow>
               let ja = analyzeJobTitle (title j);
                   ca = analyzeCompany c;
                   s = cappedScore ja ca
               in Inr \<lparr>totalScore = math_round s, jobAnalysis = ja, companyAnalysis = ca,
                        priority = getPriorityLevel s\<rparr>))"

subsection \<open>generateInsights\<close>

definition generateInsights :: "leadAnalysis \<Rightarrow> string list" where
  "generateInsights analysis =
     (let i0 = [];
          i1 = (if level (jobAnalysis analysis) = ''c_level''
                then i0 @ [''High-value C-level executive - excellent decision-making authority'']
                else i0);
          i2 = (if department (jobAnalysis analysis) = ''sales''
                then i1 @ [''Sales professional - likely understands value of sales tools'']
                else i1);
          i3 = (if tier (companyAnalysis analysis) = ''enterprise''
                then i2 @ [''Large enterprise - potential for high-value deal'']
                else i2);
          i4 = (if js_ge (totalScore analysis) (Fin 80)
                then i3 @ [''Prime prospect - should be prioritized for immediate outreach'']
                else i3)
      in i4)"

section \<open>The batch route\<close>

text \<open>An entry of \<^verbatim>\<open>leads\<close> is \<^verbatim>\<open>null\<close> (\<open>None\<close>) or an object with optional \<^verbatim>\<open>id\<close>,
  \<^verbatim>\<open>job\<close> and \<^verbatim>\<open>company\<close>.\<close>

record lead =
  lead_id :: jsval
  job :: "job option"
  company :: "company option"

record batchResult =
  result_id :: jsval
  success :: bool
  body :: "error + (leadAnalysis \<times> string list)"

record batchResponse =
  ok :: bool
  processed :: nat
  results :: "batchResult list"

datatype 'a response = Json 'a | Status nat string

text \<open>The callback of \<^verbatim>\<open>leads.map\<close>. On a \<^verbatim>\<open>null\<close> entry \<^verbatim>\<open>lead.job\<close> throws inside the
  \<^verbatim>\<open>try\<close>, and \<^verbatim>\<open>lead.id\<close> throws again inside the \<^verbatim>\<open>catch\<close>, so the callback itself
  throws.\<close>

fun analyzeEntry :: "nat \<Rightarrow> lead option \<Rightarrow> error + batchResult" where
  "analyzeEntry index None = Inl TypeError"
| "analyzeEntry index (Some l) =
     (case calculateLeadScore (job l) (company l) of
        Inr analysis \<Rightarrow>
          Inr \<lparr>result_id = js_or (lead_id l) (VNumber (Fin (of_nat index))), success = True,
               body = Inr (analysis, generateInsights analysis)\<rparr>
      | Inl e \<Rightarrow>
          Inr \<lparr>result_id = js_or (lead_id l) (VNumber (Fin (of_nat index))), success = False,
               body = Inl e\<rparr>)"

fun mapEntries :: "nat \<Rightarrow> lead option list \<Rightarrow> error + batchResult list" where
  "mapEntries index [] = Inr []"
| "mapEntries index (l # ls) =
     (case analyzeEntry index l of
        Inl e \<Rightarrow> Inl e
      | Inr r \<Rightarrow> (case mapEntries (Suc index) ls of Inl e \<Rightarrow> Inl e | Inr rs \<Rightarrow> Inr (r # rs)))"

text \<open>The handler of \<^verbatim>\<open>POST /api/batch-analyze\<close>; \<open>None\<close> is a \<^verbatim>\<open>leads\<close> that is not an
  array.\<close>

definition batchAnalyze :: "lead option list option \<Rightarrow> batchResponse response" where
  "batchAnalyze leads =
     (case leads of
        None \<Rightarrow> Status 400 ''Leads must be an array''
      | Some ls \<Rightarrow>
          (case mapEntries 0 ls of
             Inl e \<Rightarrow> Status 500 ''Internal server error during batch analysis''
           | Inr rs \<Rightarrow> Json \<lparr>ok = True, processed = length rs, results = rs\<rparr>))"

section \<open>Notions used to state the properties\<close>

text \<open>The level that belongs to a weight, as the chain of comparisons in the first loop.\<close>

definition levelOf :: "int \<Rightarrow> string" where
  "levelOf w = (if w \<ge> 90 then ''c_level''
                 else if w \<ge> 80 then ''director''
                 else if w \<ge> 65 then ''manager''
                 else if w \<ge> 45 then ''specialist''
                 else ''individual_contributor'')"

text \<open>The weights of the keywords of a table that occur in a title.\<close>

definition matching :: "string \<Rightarrow> (string \<times> int) list \<Rightarrow> int set" where
  "matching t tbl = {w. \<exists>k. (k, w) \<in> set tbl \<and> str_includes t k}"

text \<open>An employee count lies in the inclusive range of a tier.\<close>

definition inRange :: "jsnum \<Rightarrow> tierData \<Rightarrow> bool" where
  "inRange e td = (js_ge e (fst (employee_range td)) \<and> js_le e (snd (employee_range td)))"

text \<open>A finite number that is not negative.\<close>

fun nonneg :: "jsnum \<Rightarrow> bool" where
  "nonneg (Fin x) = (0 \<le> x)"
| "nonneg a = False"

section \<open>Substrings and the loops\<close>

lemma startsWith_iff: "startsWith s k \<longleftrightarrow> (\<exists>q. s = k @ q)"
  by (induction s k rule: startsWith.induct) auto

lemma str_includes_iff: "str_includes s k \<longleftrightarrow> (\<exists>p q. s = p @ k @ q)"
proof (induction s)
  case Nil
  then show ?case by auto
next
  case (Cons c cs)
  have "(\<exists>p q. c # cs = p @ k @ q) \<longleftrightarrow> (\<exists>q. c # cs = k @ q) \<or> (\<exists>p q. cs = p @ k @ q)"
  proof
    assume "\<exists>p q. c # cs = p @ k @ q"
    then obtain p q where pq: "c # cs = p @ k @ q" by blast
    show "(\<exists>q. c # cs = k @ q) \<or> (\<exists>p q. cs = p @ k @ q)"
    proof (cases p)
      case Nil
      with pq show ?thesis by auto
    next
      case (Cons a p')
      with pq have "cs = p' @ k @ q" by simp
      then show ?thesis by blast
    qed
  next
    assume "(\<exists>q. c # cs = k @ q) \<or> (\<exists>p q. cs = p @ k @ q)"
    then show "\<exists>p q. c # cs = p @ k @ q"
    proof
      assume "\<exists>q. c # cs = k @ q"
      then obtain q where "c # cs = [] @ k @ q" by auto
      then show ?thesis by blast
    next
      assume "\<exists>p q. cs = p @ k @ q"
      then obtain p q where "c # cs = (c # p) @ k @ q" by auto
      then show ?thesis by blast
    qed
  qed
  with Cons show ?case by (simp add: startsWith_iff)
qed

lemma finite_matching: "finite (matching t tbl)"
proof -
  have "matching t tbl \<subseteq> snd ` set tbl" by (force simp: matching_def)
  then show ?thesis by (rule finite_subset) simp
qed

lemma matching_Cons:
  "matching t ((k, w) # rest) = (if str_includes t k then insert w (matching t rest) else matching t rest)"
  by (auto simp: matching_def)

lemma Max_insert_max:
  "finite S \<Longrightarrow> Max (insert (max b w) S) = Max (insert b (insert w S))"
  by (cases "S = {}") (simp_all add: max.assoc)

lemma levelLoop_score:
  "fst (levelLoop t tbl (b, l)) = Max (insert b (matching t tbl))"
proof (induction tbl arbitrary: b l)
  case Nil
  then show ?case by (simp add: matching_def)
next
  case (Cons kw rest)
  obtain k w where kw: "kw = (k, w)" by (cases kw)
  have fin: "finite (matching t rest)" by (rule finite_matching)
  show ?case
  proof (cases "str_includes t k")
    case True
    have "fst (levelLoop t (kw # rest) (b, l)) = Max (insert (max b w) (matching t rest))"
      using True Cons.IH by (simp add: kw max_def)
    also have "\<dots> = Max (insert b (insert w (matching t rest)))"
      using fin by (rule Max_insert_max)
    finally show ?thesis using True by (simp add: kw matching_Cons)
  next
    case False
    then show ?thesis using Cons.IH by (simp add: kw matching_Cons)
  qed
qed

lemma levelLoop_level:
  "l = levelOf b \<Longrightarrow> snd (levelLoop t tbl (b, l)) = levelOf (fst (levelLoop t tbl (b, l)))"
proof (induction tbl arbitrary: b l)
  case Nil
  then show ?case by simp
next
  case (Cons kw rest)
  obtain k w where kw: "kw = (k, w)" by (cases kw)
  show ?case
  proof (cases "str_includes t k \<and> w > b")
    case True
    have "snd (levelLoop t rest (w, levelOf w)) = levelOf (fst (levelLoop t rest (w, levelOf w)))"
      by (rule Cons.IH) simp
    then show ?thesis using True by (simp add: kw levelOf_def)
  next
    case False
    have "snd (levelLoop t rest (b, l)) = levelOf (fst (levelLoop t rest (b, l)))"
      by (rule Cons.IH) (rule Cons.prems)
    then show ?thesis using False by (auto simp add: kw)
  qed
qed

lemma departmentLoop_find:
  "departmentLoop t tbl dep =
     (case find (\<lambda>dw. str_includes t (fst dw)) tbl of None \<Rightarrow> dep | Some dw \<Rightarrow> fst dw)"
  by (induction tbl) auto

lemma first_hit:
  "(case find P xs of None \<Rightarrow> d | Some x \<Rightarrow> f x) = r \<Longrightarrow>
   (\<exists>i<length xs. P (xs ! i) \<and> (\<forall>j<i. \<not> P (xs ! j)) \<and> r = f (xs ! i))
   \<or> ((\<forall>i<length xs. \<not> P (xs ! i)) \<and> r = d)"
proof (cases "find P xs")
  case None
  assume "(case find P xs of None \<Rightarrow> d | Some x \<Rightarrow> f x) = r"
  with None have "r = d" by simp
  moreover from None have "\<forall>i<length xs. \<not> P (xs ! i)"
    by (auto simp: find_None_iff)
  ultimately show ?thesis by blast
next
  case (Some x)
  assume "(case find P xs of None \<Rightarrow> d | Some x \<Rightarrow> f x) = r"
  with Some have r: "r = f x" by simp
  from Some obtain i where "i < length xs" "P (xs ! i)" "x = xs ! i" "\<forall>j<i. \<not> P (xs ! j)"
    by (auto simp: find_Some_iff)
  with r show ?thesis by blast
qed

lemma analyzeJobTitle_present:
  assumes "s \<noteq> []"
  shows "score (analyzeJobTitle (Some s)) = Max (insert 0 (matching (toLowerCase s) jobTitleWeights))"
    and "level (analyzeJobTitle (Some s)) = levelOf (score (analyzeJobTitle (Some s)))"
    and "department (analyzeJobTitle (Some s)) =
           departmentLoop (toLowerCase s) departmentWeights ''unknown''"
proof -
  let ?n = "toLowerCase s"
  let ?st = "levelLoop ?n jobTitleWeights (0, ''individual_contributor'')"
  have r: "analyzeJobTitle (Some s) =
      \<lparr>score = fst ?st, level = snd ?st,
       department = departmentLoop ?n departmentWeights ''unknown''\<rparr>"
    using assms by (simp add: analyzeJobTitle_def Let_def split_beta)
  show "score (analyzeJobTitle (Some s)) = Max (insert 0 (matching ?n jobTitleWeights))"
    by (simp add: r levelLoop_score)
  have "snd ?st = levelOf (fst ?st)"
    by (rule levelLoop_level) (simp add: levelOf_def)
  then show "level (analyzeJobTitle (Some s)) = levelOf (score (analyzeJobTitle (Some s)))"
    by (simp add: r)
  show "department (analyzeJobTitle (Some s)) = departmentLoop ?n departmentWeights ''unknown''"
    by (simp add: r)
qed

lemma levelOf_not_unknown: "levelOf w \<noteq> ''unknown''"
  by (simp add: levelOf_def)

lemma tierLoop_find:
  "tierLoop e tbl st =
     (case find (\<lambda>nt. inRange (numberOf e) (snd nt)) tbl of
        None \<Rightarrow> st | Some nt \<Rightarrow> (fst nt, tierData.weight (snd nt)))"
  by (induction tbl) (auto simp: inRange_def split_beta)

lemma analyzeCompany_tier:
  "(tier (analyzeCompany c), companyAnalysis.weight (analyzeCompany c)) =
     tierLoop (company.employees c) companyTiers (''startup'', 40)"
  by (simp add: analyzeCompany_def split_beta)

lemma length_companyTiers: "length companyTiers = 5"
  by (simp add: companyTiers_def)

lemma less_5_cases: "i < (5::nat) \<longleftrightarrow> i = 0 \<or> i = Suc 0 \<or> i = 2 \<or> i = 3 \<or> i = 4"
  by auto

lemma inRange_nat:
  "inRange (Fin (of_nat n)) (snd (companyTiers ! 0)) \<longleftrightarrow> 1000 \<le> n"
  "inRange (Fin (of_nat n)) (snd (companyTiers ! Suc 0)) \<longleftrightarrow> 250 \<le> n \<and> n \<le> 999"
  "inRange (Fin (of_nat n)) (snd (companyTiers ! 2)) \<longleftrightarrow> 50 \<le> n \<and> n \<le> 249"
  "inRange (Fin (of_nat n)) (snd (companyTiers ! 3)) \<longleftrightarrow> 10 \<le> n \<and> n \<le> 49"
  "inRange (Fin (of_nat n)) (snd (companyTiers ! 4)) \<longleftrightarrow> 1 \<le> n \<and> n \<le> 9"
proof -
  have a: "\<And>k. (numeral k \<le> (of_nat n :: rat)) = (numeral k \<le> n)"
    by (metis of_nat_le_iff of_nat_numeral)
  have b: "\<And>k. ((of_nat n :: rat) \<le> numeral k) = (n \<le> numeral k)"
    by (metis of_nat_le_iff of_nat_numeral)
  have c: "(1 \<le> (of_nat n :: rat)) = (1 \<le> n)"
    by (metis of_nat_le_iff of_nat_1)
  show "inRange (Fin (of_nat n)) (snd (companyTiers ! 0)) \<longleftrightarrow> 1000 \<le> n"
    by (simp add: inRange_def companyTiers_def js_ge_def a b)
  show "inRange (Fin (of_nat n)) (snd (companyTiers ! Suc 0)) \<longleftrightarrow> 250 \<le> n \<and> n \<le> 999"
    by (simp add: inRange_def companyTiers_def js_ge_def a b)
  show "inRange (Fin (of_nat n)) (snd (companyTiers ! 2)) \<longleftrightarrow> 50 \<le> n \<and> n \<le> 249"
    by (simp add: inRange_def companyTiers_def js_ge_def a b)
  show "inRange (Fin (of_nat n)) (snd (companyTiers ! 3)) \<longleftrightarrow> 10 \<le> n \<and> n \<le> 49"
    by (simp add: inRange_def companyTiers_def js_ge_def a b)
  show "inRange (Fin (of_nat n)) (snd (companyTiers ! 4)) \<longleftrightarrow> 1 \<le> n \<and> n \<le> 9"
    by (simp add: inRange_def companyTiers_def js_ge_def a b c)
qed

lemma exactly_one_tier:
  assumes "0 < n"
  shows "\<exists>!i. i < length companyTiers \<and> inRange (Fin (of_nat n)) (snd (companyTiers ! i))"
proof -
  consider "n \<le> 9" | "10 \<le> n \<and> n \<le> 49" | "50 \<le> n \<and> n \<le> 249" | "250 \<le> n \<and> n \<le> 999" | "1000 \<le> n"
    by linarith
  then show ?thesis
  proof cases
    case 1
    show ?thesis
      by (rule ex1I[of _ 4]) (use 1 assms in \<open>auto simp: length_companyTiers less_5_cases inRange_nat\<close>)
  next
    case 2
    show ?thesis
      by (rule ex1I[of _ 3]) (use 2 in \<open>auto simp: length_companyTiers less_5_cases inRange_nat\<close>)
  next
    case 3
    show ?thesis
      by (rule ex1I[of _ 2]) (use 3 in \<open>auto simp: length_companyTiers less_5_cases inRange_nat\<close>)
  next
    case 4
    show ?thesis
      by (rule ex1I[of _ 1]) (use 4 in \<open>auto simp: length_companyTiers less_5_cases inRange_nat\<close>)
  next
    case 5
    show ?thesis
      by (rule ex1I[of _ 0]) (use 5 in \<open>auto simp: length_companyTiers less_5_cases inRange_nat\<close>)
  qed
qed

lemma tier_of_nat:
  assumes "company.employees c = Some (Fin (of_nat n))" "0 < n"
  shows "tier (analyzeCompany c) =
      (if n \<le> 9 then ''startup'' else if n \<le> 49 then ''small''
       else if n \<le> 249 then ''medium'' else if n \<le> 999 then ''large'' else ''enterprise'')"
proof -
  have a: "\<And>k. (numeral k \<le> (of_nat n :: rat)) = (numeral k \<le> n)"
    by (metis of_nat_le_iff of_nat_numeral)
  have b: "\<And>k. ((of_nat n :: rat) \<le> numeral k) = (n \<le> numeral k)"
    by (metis of_nat_le_iff of_nat_numeral)
  have "tier (analyzeCompany c) = fst (tierLoop (Some (Fin (of_nat n))) companyTiers (''startup'', 40))"
    using analyzeCompany_tier[of c] assms(1) by (metis fst_conv)
  also have "\<dots> = (if n \<le> 9 then ''startup'' else if n \<le> 49 then ''small''
       else if n \<le> 249 then ''medium'' else if n \<le> 999 then ''large'' else ''enterprise'')"
    using assms(2) by (simp add: companyTiers_def js_ge_def a b)
  finally show ?thesis .
qed

lemma no_tier_fallback:
  assumes "numberOf (company.employees c) = NaN \<or> js_le (numberOf (company.employees c)) (Fin 0)"
  shows "tier (analyzeCompany c) = ''startup'' \<and> companyAnalysis.weight (analyzeCompany c) = 40"
proof -
  have "tierLoop (company.employees c) companyTiers (''startup'', 40) = (''startup'', 40)"
  proof (cases "numberOf (company.employees c)")
    case NaN
    then show ?thesis by (simp add: companyTiers_def js_ge_def)
  next
    case NegInf
    then show ?thesis by (simp add: companyTiers_def js_ge_def)
  next
    case (Fin r)
    with assms have "r \<le> 0" by simp
    with Fin show ?thesis by (simp add: companyTiers_def js_ge_def)
  next
    case PosInf
    with assms show ?thesis by simp
  qed
  then show ?thesis using analyzeCompany_tier[of c] by simp
qed

section \<open>Rounding and the score\<close>

lemma round_lower: "of_int k \<le> x \<Longrightarrow> (of_int k :: rat) \<le> of_int \<lfloor>x + 1 / 2\<rfloor>"
proof -
  assume "of_int k \<le> x"
  then have "of_int k \<le> x + 1 / 2" by simp
  then have "k \<le> \<lfloor>x + 1 / 2\<rfloor>" by (simp add: le_floor_iff)
  then show ?thesis by simp
qed

lemma round_upper: "x < of_int k \<Longrightarrow> (of_int \<lfloor>x + 1 / 2\<rfloor> :: rat) \<le> of_int k"
proof -
  assume "x < of_int k"
  then have "x + 1 / 2 < of_int (k + 1)" by simp
  then have "\<lfloor>x + 1 / 2\<rfloor> < k + 1" by (simp only: floor_less_iff)
  then show ?thesis by simp
qed

lemma math_min_100_not_PosInf: "math_min a (Fin 100) \<noteq> PosInf"
  by (cases a) simp_all

lemma cappedScore_not_PosInf: "cappedScore ja ca \<noteq> PosInf"
  by (simp add: cappedScore_def Let_def math_min_100_not_PosInf)

lemma priority_bounds:
  assumes "s \<noteq> PosInf"
  shows "(getPriorityLevel s = ''high'' \<longrightarrow> (\<exists>t. math_round s = Fin t \<and> 80 \<le> t))
       \<and> (getPriorityLevel s = ''medium'' \<longrightarrow> (\<exists>t. math_round s = Fin t \<and> 60 \<le> t \<and> t \<le> 80))
       \<and> (getPriorityLevel s = ''low'' \<longrightarrow> (\<exists>t. math_round s = Fin t \<and> 40 \<le> t \<and> t \<le> 60))
       \<and> (getPriorityLevel s = ''very_low'' \<longrightarrow> (\<forall>t. math_round s = Fin t \<longrightarrow> t \<le> 40))"
proof (cases s)
  case NaN
  then show ?thesis by (simp add: js_ge_def)
next
  case NegInf
  then show ?thesis by (simp add: js_ge_def)
next
  case (Fin x)
  define t :: rat where "t = of_int \<lfloor>x + 1 / 2\<rfloor>"
  have r: "math_round s = Fin t" by (simp add: Fin t_def)
  have l80: "80 \<le> x \<Longrightarrow> 80 \<le> t" using round_lower[of 80 x] t_def by simp
  have l60: "60 \<le> x \<Longrightarrow> 60 \<le> t" using round_lower[of 60 x] t_def by simp
  have l40: "40 \<le> x \<Longrightarrow> 40 \<le> t" using round_lower[of 40 x] t_def by simp
  have u80: "x < 80 \<Longrightarrow> t \<le> 80" using round_upper[of x 80] t_def by simp
  have u60: "x < 60 \<Longrightarrow> t \<le> 60" using round_upper[of x 60] t_def by simp
  have u40: "x < 40 \<Longrightarrow> t \<le> 40" using round_upper[of x 40] t_def by simp
  have p: "getPriorityLevel s =
      (if 80 \<le> x then ''high'' else if 60 \<le> x then ''medium''
       else if 40 \<le> x then ''low'' else ''very_low'')"
    by (simp add: Fin js_ge_def)
  show ?thesis unfolding r p using l80 l60 l40 u80 u60 u40
    by (auto simp: not_le)
next
  case PosInf
  with assms show ?thesis by simp
qed

lemma pow2_pos: "0 < pow2 q"
  by (simp add: pow2_def)

lemma roundHalfEven_nonneg: "0 \<le> m \<Longrightarrow> 0 \<le> roundHalfEven m"
proof -
  assume "0 \<le> m"
  then have "0 \<le> \<lfloor>m\<rfloor>" by simp
  then show ?thesis by (simp add: roundHalfEven_def Let_def)
qed

lemma d64_nonneg: "0 \<le> x \<Longrightarrow> 0 \<le> d64 x"
proof -
  assume x: "0 \<le> x"
  have "0 \<le> of_int (roundHalfEven (x / pow2 q)) * pow2 q" for q
  proof -
    have "0 \<le> x / pow2 q" using x pow2_pos[of q] by simp
    then have "0 \<le> roundHalfEven (x / pow2 q)" by (rule roundHalfEven_nonneg)
    then show ?thesis using pow2_pos[of q] by simp
  qed
  then show ?thesis by (simp add: d64_def Let_def)
qed

lemma d64_zero: "d64 0 = 0"
  by (simp add: d64_def)

lemma nonneg_mul: "nonneg a \<Longrightarrow> nonneg b \<Longrightarrow> nonneg (js_mul a b)"
  by (cases a; cases b) (simp_all add: d64_nonneg)

lemma zero_mul: "nonneg b \<Longrightarrow> js_mul (Fin 0) b = Fin 0"
  by (cases b) (simp_all add: d64_zero)

lemma nonneg_div_100: "0 \<le> w \<Longrightarrow> nonneg (js_div (ofInt w) (Fin 100))"
  by (simp add: ofInt_def d64_nonneg)

lemma nonneg_lit: "0 \<le> r \<Longrightarrow> nonneg (lit r)"
  by (simp add: lit_def d64_nonneg)

lemma nonneg_multiplier:
  assumes "key \<notin> set objectPrototype"
  shows "nonneg (toNumber (js_or (getProperty industryMultipliers key) (VNumber (lit 1))))"
proof (cases "map_of industryMultipliers key")
  case None
  with assms show ?thesis by (simp add: getProperty_def js_or_def nonneg_lit)
next
  case (Some n)
  then have "(key, n) \<in> set industryMultipliers" by (rule map_of_SomeD)
  then have "nonneg n" by (auto simp: industryMultipliers_def nonneg_lit)
  then show ?thesis using Some by (cases "truthy (VNumber n)") (simp_all add: getProperty_def js_or_def nonneg_lit)
qed

lemma weight_nonneg: "0 \<le> companyAnalysis.weight (analyzeCompany c)"
proof -
  have "snd (tierLoop e companyTiers (''startup'', 40)) \<in> {100, 85, 70, 55, 40}" for e
    by (simp add: companyTiers_def)
  then have "companyAnalysis.weight (analyzeCompany c) \<in> {100, 85, 70, 55, 40}"
    using analyzeCompany_tier[of c] by (metis snd_conv)
  then show ?thesis by auto
qed

lemma score_nonneg: "0 \<le> score (analyzeJobTitle t)"
proof (cases t)
  case None
  then show ?thesis by (simp add: analyzeJobTitle_def)
next
  case (Some s)
  have "0 \<le> fst (levelLoop n jobTitleWeights (0, l))" for n l
    by (simp add: levelLoop_score finite_matching)
  then show ?thesis using Some by (simp add: analyzeJobTitle_def Let_def split_beta)
qed

lemma cappedScore_range:
  assumes "0 \<le> score ja" "0 \<le> companyAnalysis.weight ca"
    and "toLowerCase (companyAnalysis.industry ca) \<notin> set objectPrototype"
  shows "\<exists>x. cappedScore ja ca = Fin x \<and> 0 \<le> x \<and> x \<le> 100"
proof -
  let ?s1 = "js_mul (ofInt (score ja)) (js_div (ofInt (companyAnalysis.weight ca)) (Fin 100))"
  let ?s2 = "if department ja = ''sales'' \<or> department ja = ''business development''
             then js_mul ?s1 (lit (12 / 10)) else ?s1"
  let ?m = "toNumber (js_or (getProperty industryMultipliers (toLowerCase (companyAnalysis.industry ca)))
              (VNumber (lit 1)))"
  have "nonneg (ofInt (score ja))" using assms(1) by (simp add: ofInt_def)
  then have s1: "nonneg ?s1" using nonneg_div_100[OF assms(2)] by (rule nonneg_mul)
  have s2: "nonneg ?s2" using s1 nonneg_mul[OF s1 nonneg_lit[of "12 / 10"]] by simp
  have "nonneg (js_mul ?s2 ?m)" using s2 nonneg_multiplier[OF assms(3)] by (rule nonneg_mul)
  then obtain y where y: "js_mul ?s2 ?m = Fin y" "0 \<le> y" by (cases "js_mul ?s2 ?m") simp_all
  have "cappedScore ja ca = math_min (js_mul ?s2 ?m) (Fin 100)"
    by (simp add: cappedScore_def Let_def)
  then have "cappedScore ja ca = Fin (min y 100)" using y by (simp add: min_def)
  then show ?thesis using y(2) by simp
qed

lemma totalScore_range:
  assumes "calculateLeadScore (Some j) (Some c) = Inr a"
    and "toLowerCase (companyAnalysis.industry (analyzeCompany c)) \<notin> set objectPrototype"
  shows "\<exists>n. totalScore a = Fin (of_int n) \<and> 0 \<le> n \<and> n \<le> 100"
proof -
  let ?s = "cappedScore (analyzeJobTitle (title j)) (analyzeCompany c)"
  obtain x where x: "?s = Fin x" "0 \<le> x" "x \<le> 100"
    using cappedScore_range[OF score_nonneg weight_nonneg assms(2)] by blast
  from assms(1) have "totalScore a = math_round ?s"
    by (auto simp: calculateLeadScore_def Let_def)
  then have t: "totalScore a = Fin (of_int \<lfloor>x + 1 / 2\<rfloor>)" using x(1) by simp
  have "0 \<le> \<lfloor>x + 1 / 2\<rfloor>" using x(2) by simp
  moreover have "\<lfloor>x + 1 / 2\<rfloor> \<le> 100"
  proof -
    have "x + 1 / 2 < of_int 101" using x(3) by simp
    then have "\<lfloor>x + 1 / 2\<rfloor> < 101" by (simp only: floor_less_iff)
    then show ?thesis by simp
  qed
  ultimately show ?thesis using t by blast
qed

lemma zero_score_absorbing:
  assumes "calculateLeadScore (Some j) (Some c) = Inr a"
    and "score (analyzeJobTitle (title j)) = 0"
    and "toLowerCase (companyAnalysis.industry (analyzeCompany c)) \<notin> set objectPrototype"
  shows "totalScore a = Fin 0 \<and> priority a = ''very_low''"
proof -
  let ?ja = "analyzeJobTitle (title j)" and ?ca = "analyzeCompany c"
  let ?m = "toNumber (js_or (getProperty industryMultipliers (toLowerCase (companyAnalysis.industry ?ca)))
              (VNumber (lit 1)))"
  have z1: "js_mul (ofInt (score ?ja)) (js_div (ofInt (companyAnalysis.weight ?ca)) (Fin 100)) = Fin 0"
    using zero_mul[OF nonneg_div_100[OF weight_nonneg[of c]]] assms(2) by (simp add: ofInt_def)
  have z2: "js_mul (Fin 0) (lit r) = Fin 0" if "0 \<le> r" for r
    by (rule zero_mul) (rule nonneg_lit[OF that])
  have z3: "js_mul (Fin 0) ?m = Fin 0"
    by (rule zero_mul) (rule nonneg_multiplier[OF assms(3)])
  have "cappedScore ?ja ?ca = Fin 0"
    by (simp add: cappedScore_def Let_def z1 z2 z3)
  moreover have "\<lfloor>(1::rat) / 2\<rfloor> = 0"
    by (rule floor_unique) simp_all
  ultimately show ?thesis using assms(1)
    by (auto simp: calculateLeadScore_def Let_def js_ge_def)
qed

lemma weights_positive: "(k, w) \<in> set jobTitleWeights \<Longrightarrow> 0 < w"
  by (auto simp: jobTitleWeights_def)

lemma score_zero_iff:
  "score (analyzeJobTitle t) = 0 \<longleftrightarrow>
     t = None \<or> t = Some [] \<or>
     (\<exists>s. t = Some s \<and> (\<forall>k w. (k, w) \<in> set jobTitleWeights \<longrightarrow> \<not> str_includes (toLowerCase s) k))"
proof (cases t)
  case None
  then show ?thesis by (simp add: analyzeJobTitle_def)
next
  case (Some s)
  show ?thesis
  proof (cases "s = []")
    case True
    with Some show ?thesis by (simp add: analyzeJobTitle_def)
  next
    case False
    let ?M = "matching (toLowerCase s) jobTitleWeights"
    have sc: "score (analyzeJobTitle t) = Max (insert 0 ?M)"
      using Some False by (simp add: analyzeJobTitle_def Let_def split_beta levelLoop_score)
    have pos: "\<forall>w\<in>?M. 0 < w" using weights_positive by (auto simp: matching_def)
    have "Max (insert 0 ?M) = 0 \<longleftrightarrow> ?M = {}"
    proof
      assume m: "Max (insert 0 ?M) = 0"
      show "?M = {}"
      proof (rule ccontr)
        assume "?M \<noteq> {}"
        then obtain w where w: "w \<in> ?M" by blast
        then have "w \<le> Max (insert 0 ?M)" by (simp add: finite_matching)
        with m pos w show False by auto
      qed
    qed simp
    then show ?thesis using sc Some False by (auto simp: matching_def)
  qed
qed

lemma str_includes_trans:
  assumes "str_includes n k" "str_includes k k'"
  shows "str_includes n k'"
proof -
  from assms obtain p q p' q' where "n = p @ k @ q" "k = p' @ k' @ q'"
    unfolding str_includes_iff by blast
  then have "n = (p @ p') @ k' @ (q' @ q)" by simp
  then show ?thesis unfolding str_includes_iff by blast
qed

lemma director_contains_cto:
  "str_includes ''director'' ''cto''" "str_includes ''senior director'' ''cto''"
  by simp_all

text \<open>
  The level \<^verbatim>\<open>director\<close> is never returned: the only weights between 80 and 89 belong to
  \<^verbatim>\<open>director\<close> and \<^verbatim>\<open>senior director\<close>, and every title that contains one of them
  also contains the keyword \<^verbatim>\<open>cto\<close> (in dire-cto-r), whose weight is 95.
\<close>

lemma director_level_unreachable: "level (analyzeJobTitle t) \<noteq> ''director''"
proof
  assume d: "level (analyzeJobTitle t) = ''director''"
  obtain s where t: "t = Some s"
    using d by (cases t) (simp_all add: analyzeJobTitle_def)
  have ne: "s \<noteq> []"
  proof
    assume "s = []"
    with d t show False by (simp add: analyzeJobTitle_def)
  qed
  let ?n = "toLowerCase s"
  let ?M = "matching ?n jobTitleWeights"
  let ?b = "score (analyzeJobTitle (Some s))"
  have sc: "?b = Max (insert 0 ?M)" by (rule analyzeJobTitle_present(1)[OF ne])
  have "levelOf ?b = ''director''"
    using d t analyzeJobTitle_present(2)[OF ne] by simp
  then have rng: "80 \<le> ?b \<and> ?b < 90"
    by (simp add: levelOf_def split: if_splits)
  have "Max (insert 0 ?M) \<in> insert 0 ?M"
    by (rule Max_in) (simp_all add: finite_matching)
  with sc rng have "?b \<in> ?M" by auto
  then obtain k where k: "(k, ?b) \<in> set jobTitleWeights" "str_includes ?n k"
    by (auto simp: matching_def)
  from k(1) rng have "k = ''director'' \<or> k = ''senior director''"
    by (auto simp: jobTitleWeights_def)
  with k(2) have "str_includes ?n ''cto''"
    using str_includes_trans director_contains_cto by blast
  then have "95 \<in> ?M" by (auto simp: matching_def jobTitleWeights_def)
  then have "95 \<le> Max (insert 0 ?M)" by (simp add: finite_matching)
  with sc rng show False by simp
qed

text \<open>
  Binary64 rounding is visible in the result: for the title \<^verbatim>\<open>Analyst\<close> at a company of 100
  employees the product 45 * (70 / 100) is just below 31.5 and is rounded to 31, where the
  exact product 31.5 would be rounded to 32.
\<close>

lemma analyst_medium_company_rounds_down:
  "calculateLeadScore (Some \<lparr>title = Some ''Analyst''\<rparr>)
     (Some \<lparr>name = None, employees = Some (Fin 100), industry = None, location = None\<rparr>)
   = Inr \<lparr>totalScore = Fin 31,
           jobAnalysis = \<lparr>score = 45, level = ''specialist'', department = ''unknown''\<rparr>,
           companyAnalysis = \<lparr>tier = ''medium'', weight = 70, employees = Some (Fin 100),
                               industry = ''unknown'', location = ''unknown''\<rparr>,
           priority = ''very_low''\<rparr>
   \<and> \<lfloor>(45::rat) * (70 / 100) + 1 / 2\<rfloor> = 32"
  by code_simp

section \<open>The batch route without null entries\<close>

lemma analyzeEntry_total: "\<exists>r. analyzeEntry k (Some ld) = Inr r"
  by (cases "calculateLeadScore (job ld) (company ld)") simp_all

lemma mapEntries_no_null:
  assumes "None \<notin> set ls"
  shows "\<exists>rs. mapEntries k ls = Inr rs \<and> length rs = length ls
            \<and> (\<forall>i<length ls. analyzeEntry (k + i) (ls ! i) = Inr (rs ! i))"
  using assms
proof (induction ls arbitrary: k)
  case Nil
  then show ?case by simp
next
  case (Cons l ls)
  then obtain ld where l: "l = Some ld" by (cases l) auto
  obtain r where r: "analyzeEntry k l = Inr r"
    unfolding l using analyzeEntry_total by blast
  from Cons.prems have "None \<notin> set ls" by simp
  from Cons.IH[OF this, of "Suc k"]
  obtain rs where rs: "mapEntries (Suc k) ls = Inr rs" "length rs = length ls"
      "\<forall>i<length ls. analyzeEntry (Suc k + i) (ls ! i) = Inr (rs ! i)"
    by blast
  have "\<forall>i<length (l # ls). analyzeEntry (k + i) ((l # ls) ! i) = Inr ((r # rs) ! i)"
  proof (intro allI impI)
    fix i assume "i < length (l # ls)"
    then show "analyzeEntry (k + i) ((l # ls) ! i) = Inr ((r # rs) ! i)"
      using r rs(3) by (cases i) simp_all
  qed
  moreover have "mapEntries k (l # ls) = Inr (r # rs)" using r rs(1) by simp
  moreover have "length (r # rs) = length (l # ls)" using rs(2) by simp
  ultimately show ?case by blast
qed

lemma batch_without_null_entries:
  assumes "None \<notin> set ls"
  shows "\<exists>rs. batchAnalyze (Some ls) = Json \<lparr>ok = True, processed = length ls, results = rs\<rparr>
            \<and> length rs = length ls
            \<and> (\<forall>i<length ls. analyzeEntry i (ls ! i) = Inr (rs ! i))"
proof -
  obtain rs where "mapEntries 0 ls = Inr rs" "length rs = length ls"
      "\<forall>i<length ls. analyzeEntry (0 + i) (ls ! i) = Inr (rs ! i)"
    using mapEntries_no_null[OF assms, of 0] by blast
  then show ?thesis by (simp add: batchAnalyze_def)
qed

lemma calculateLeadScore_error:
  "calculateLeadScore jd cd = Inl e \<longleftrightarrow> jd = None \<or> cd = None"
  by (cases jd; cases cd; cases e) (simp_all add: calculateLeadScore_def Let_def)

lemma analyzeEntry_result:
  assumes "analyzeEntry i (Some l) = Inr r"
  shows "result_id r = (if truthy (lead_id l) then lead_id l else VNumber (Fin (of_nat i)))"
    and "success r \<longleftrightarrow> job l \<noteq> None \<and> company l \<noteq> None"
proof -
  show "result_id r = (if truthy (lead_id l) then lead_id l else VNumber (Fin (of_nat i)))"
    using assms by (cases "calculateLeadScore (job l) (company l)") (auto simp: js_or_def)
  show "success r \<longleftrightarrow> job l \<noteq> None \<and> company l \<noteq> None"
  proof (cases "calculateLeadScore (job l) (company l)")
    case (Inl e)
    then have "job l = None \<or> company l = None" by (simp add: calculateLeadScore_error)
    moreover from Inl assms have "\<not> success r" by auto
    ultimately show ?thesis by auto
  next
    case (Inr a)
    then have "\<not> (job l = None \<or> company l = None)"
      using calculateLeadScore_error[of "job l" "company l" TypeError] by simp
    moreover from Inr assms have "success r" by auto
    ultimately show ?thesis by auto
  qed
qed

section \<open>The claims\<close>

text \<open>
  C1, as stated: the priority is a function of the returned totalScore by the thresholds
  80, 60 and 40, so a totalScore of 80 or more yields \<^verbatim>\<open>high\<close>. This fails: for the title
  \<^verbatim>\<open>CTO Sales\<close> at a company of 100 employees the capped score is 95 * 0.7 * 1.2 = 79.8,
  the totalScore is 80 and the priority is \<^verbatim>\<open>medium\<close>.
\<close>

theorem C1_counterexample:
  "calculateLeadScore (Some \<lparr>title = Some ''CTO Sales''\<rparr>)
     (Some \<lparr>name = None, employees = Some (Fin 100), industry = None, location = None\<rparr>)
   = Inr \<lparr>totalScore = Fin 80,
           jobAnalysis = \<lparr>score = 95, level = ''c_level'', department = ''sales''\<rparr>,
           companyAnalysis = \<lparr>tier = ''medium'', weight = 70, employees = Some (Fin 100),
                               industry = ''unknown'', location = ''unknown''\<rparr>,
           priority = ''medium''\<rparr>"
  by code_simp

text \<open>
  C1, amended: the priority is a function of the capped score before rounding, by the
  thresholds 80, 60 and 40, and the totalScore is that score rounded. Hence a priority
  \<^verbatim>\<open>high\<close> has a totalScore that is a number of at least 80, \<^verbatim>\<open>medium\<close> one that is a
  number between 60 and 80, \<^verbatim>\<open>low\<close> one that is a number between 40 and 60, and with the
  priority \<^verbatim>\<open>very_low\<close> the totalScore is at most 40 whenever it is a number.
\<close>

theorem C1_priority_from_capped_score:
  assumes "calculateLeadScore (Some j) (Some c) = Inr a"
  shows "let s = cappedScore (analyzeJobTitle (title j)) (analyzeCompany c) in
       totalScore a = math_round s
     \<and> priority a = (if js_ge s (Fin 80) then ''high''
                     else if js_ge s (Fin 60) then ''medium''
                     else if js_ge s (Fin 40) then ''low''
                     else ''very_low'')
     \<and> (priority a = ''high'' \<longrightarrow> (\<exists>t. totalScore a = Fin t \<and> 80 \<le> t))
     \<and> (priority a = ''medium'' \<longrightarrow> (\<exists>t. totalScore a = Fin t \<and> 60 \<le> t \<and> t \<le> 80))
     \<and> (priority a = ''low'' \<longrightarrow> (\<exists>t. totalScore a = Fin t \<and> 40 \<le> t \<and> t \<le> 60))
     \<and> (priority a = ''very_low'' \<longrightarrow> (\<forall>t. totalScore a = Fin t \<longrightarrow> t \<le> 40))"
proof -
  let ?s = "cappedScore (analyzeJobTitle (title j)) (analyzeCompany c)"
  from assms have a: "a = \<lparr>totalScore = math_round ?s, jobAnalysis = analyzeJobTitle (title j),
      companyAnalysis = analyzeCompany c, priority = getPriorityLevel ?s\<rparr>"
    by (simp add: calculateLeadScore_def Let_def)
  have t: "totalScore a = math_round ?s" and p: "priority a = getPriorityLevel ?s"
    by (simp_all add: a)
  have b: "(priority a = ''high'' \<longrightarrow> (\<exists>t. totalScore a = Fin t \<and> 80 \<le> t))
     \<and> (priority a = ''medium'' \<longrightarrow> (\<exists>t. totalScore a = Fin t \<and> 60 \<le> t \<and> t \<le> 80))
     \<and> (priority a = ''low'' \<longrightarrow> (\<exists>t. totalScore a = Fin t \<and> 40 \<le> t \<and> t \<le> 60))
     \<and> (priority a = ''very_low'' \<longrightarrow> (\<forall>t. totalScore a = Fin t \<longrightarrow> t \<le> 40))"
    using priority_bounds[OF cappedScore_not_PosInf, of "analyzeJobTitle (title j)" "analyzeCompany c"]
    unfolding t p .
  have q: "priority a = (if js_ge ?s (Fin 80) then ''high''
                     else if js_ge ?s (Fin 60) then ''medium''
                     else if js_ge ?s (Fin 40) then ''low''
                     else ''very_low'')"
    by (simp add: p)
  from t q b show ?thesis unfolding Let_def by blast
qed

text \<open>C1, amended, at the title \<^verbatim>\<open>VP Sales\<close>, 5000 employees and industry \<^verbatim>\<open>Retail\<close>.\<close>

theorem C1_priority_from_capped_score_witness:
  "calculateLeadScore (Some \<lparr>title = Some ''VP Sales''\<rparr>)
     (Some \<lparr>name = None, employees = Some (Fin 5000), industry = Some ''Retail'', location = None\<rparr>)
   = Inr \<lparr>totalScore = Fin 97,
           jobAnalysis = \<lparr>score = 90, level = ''c_level'', department = ''sales''\<rparr>,
           companyAnalysis = \<lparr>tier = ''enterprise'', weight = 100, employees = Some (Fin 5000),
                               industry = ''Retail'', location = ''unknown''\<rparr>,
           priority = ''high''\<rparr>
   \<and> math_round (cappedScore (analyzeJobTitle (Some ''VP Sales''))
        (analyzeCompany \<lparr>name = None, employees = Some (Fin 5000), industry = Some ''Retail'',
                         location = None\<rparr>)) = Fin 97"
proof -
  have e: "calculateLeadScore (Some \<lparr>title = Some ''VP Sales''\<rparr>)
     (Some \<lparr>name = None, employees = Some (Fin 5000), industry = Some ''Retail'', location = None\<rparr>)
   = Inr \<lparr>totalScore = Fin 97,
           jobAnalysis = \<lparr>score = 90, level = ''c_level'', department = ''sales''\<rparr>,
           companyAnalysis = \<lparr>tier = ''enterprise'', weight = 100, employees = Some (Fin 5000),
                               industry = ''Retail'', location = ''unknown''\<rparr>,
           priority = ''high''\<rparr>"
    by code_simp
  from C1_priority_from_capped_score[OF e] show ?thesis using e by (simp add: Let_def)
qed

text \<open>
  C2: the claim gives, for the title \<^verbatim>\<open>Sales Director\<close> and a company of 25 employees in
  industry \<^verbatim>\<open>saas\<close>, the totalScore 65 and the level \<^verbatim>\<open>director\<close>. The code returns
  the totalScore 72 and the level \<^verbatim>\<open>c_level\<close>: the lowercased title contains the keyword
  \<^verbatim>\<open>cto\<close>, so the job score is 95 and not 85, and 95 * 0.55 * 1.2 * 1.15 = 72.105.
\<close>

theorem C2_sales_director_example:
  "calculateLeadScore (Some \<lparr>title = Some ''Sales Director''\<rparr>)
     (Some \<lparr>name = None, employees = Some (Fin 25), industry = Some ''saas'', location = None\<rparr>)
   = Inr \<lparr>totalScore = Fin 72,
           jobAnalysis = \<lparr>score = 95, level = ''c_level'', department = ''sales''\<rparr>,
           companyAnalysis = \<lparr>tier = ''small'', weight = 55, employees = Some (Fin 25),
                               industry = ''saas'', location = ''unknown''\<rparr>,
           priority = ''medium''\<rparr>"
  by code_simp

text \<open>
  C3: the claim says that no malformed entry aborts the batch. A \<^verbatim>\<open>null\<close> entry does: the
  handler of the failure reads \<^verbatim>\<open>lead.id\<close> of the \<^verbatim>\<open>null\<close> entry and throws again, so
  the whole request is answered with status 500 and the result of the well-formed entry
  before it is lost.
\<close>

theorem C3_null_entry_aborts_batch:
  "batchAnalyze (Some [Some \<lparr>lead_id = VString ''a'', job = Some \<lparr>title = Some ''CEO''\<rparr>,
       company = Some \<lparr>name = None, employees = Some (Fin 1500), industry = None, location = None\<rparr>\<rparr>,
     None])
   = Status 500 ''Internal server error during batch analysis''"
  by code_simp

text \<open>
  C4: the claim says that the result carries the id supplied by the caller. An id of 0 is
  falsy, so \<^verbatim>\<open>lead.id || index\<close> replaces it with the position: of two entries with the
  ids 1 and 0, both results carry the id 1.
\<close>

theorem C4_zero_id_replaced_by_index:
  "batchAnalyze (Some
     [Some \<lparr>lead_id = VNumber (Fin 1), job = Some \<lparr>title = Some ''CEO''\<rparr>,
            company = Some \<lparr>name = None, employees = Some (Fin 1500), industry = None,
                            location = None\<rparr>\<rparr>,
      Some \<lparr>lead_id = VNumber (Fin 0), job = Some \<lparr>title = Some ''Intern''\<rparr>,
            company = Some \<lparr>name = None, employees = Some (Fin 5), industry = None,
                            location = None\<rparr>\<rparr>])
   = Json \<lparr>ok = True, processed = 2, results =
       [\<lparr>result_id = VNumber (Fin 1), success = True,
         body = Inr (\<lparr>totalScore = Fin 100,
                      jobAnalysis = \<lparr>score = 100, level = ''c_level'', department = ''unknown''\<rparr>,
                      companyAnalysis = \<lparr>tier = ''enterprise'', weight = 100,
                        employees = Some (Fin 1500), industry = ''unknown'', location = ''unknown''\<rparr>,
                      priority = ''high''\<rparr>,
                     [''High-value C-level executive - excellent decision-making authority'',
                      ''Large enterprise - potential for high-value deal'',
                      ''Prime prospect - should be prioritized for immediate outreach''])\<rparr>,
        \<lparr>result_id = VNumber (Fin 1), success = True,
         body = Inr (\<lparr>totalScore = Fin 8,
                      jobAnalysis = \<lparr>score = 20, level = ''individual_contributor'',
                        department = ''unknown''\<rparr>,
                      companyAnalysis = \<lparr>tier = ''startup'', weight = 40,
                        employees = Some (Fin 5), industry = ''unknown'', location = ''unknown''\<rparr>,
                      priority = ''very_low''\<rparr>,
                     [])\<rparr>]\<rparr>"
  by code_simp

text \<open>
  C5: analyzeJobTitle returns score 0 with level and department \<^verbatim>\<open>unknown\<close> exactly for
  the absent and the empty title. For any other title, with \<open>n\<close> its lowercased form, the
  score is the greatest weight of the job-title keywords that are substrings of \<open>n\<close> (0 when
  there is none), the level follows from the score alone by the thresholds 90, 80, 65 and 45,
  and the department is the first department keyword in table order that is a substring of
  \<open>n\<close>, or \<^verbatim>\<open>unknown\<close> when there is none.
\<close>

theorem C5_analyzeJobTitle:
  "(analyzeJobTitle t = \<lparr>score = 0, level = ''unknown'', department = ''unknown''\<rparr>
      \<longleftrightarrow> t = None \<or> t = Some [])
   \<and> (\<forall>s. t = Some s \<and> s \<noteq> [] \<longrightarrow>
        (let n = toLowerCase s; r = analyzeJobTitle t in
           score r = Max (insert 0 {w. \<exists>k. (k, w) \<in> set jobTitleWeights \<and> (\<exists>p q. n = p @ k @ q)})
         \<and> level r = (if score r \<ge> 90 then ''c_level''
                       else if score r \<ge> 80 then ''director''
                       else if score r \<ge> 65 then ''manager''
                       else if score r \<ge> 45 then ''specialist''
                       else ''individual_contributor'')
         \<and> ((\<exists>i<length departmentWeights.
                 (\<exists>p q. n = p @ fst (departmentWeights ! i) @ q)
               \<and> (\<forall>j<i. \<not> (\<exists>p q. n = p @ fst (departmentWeights ! j) @ q))
               \<and> department r = fst (departmentWeights ! i))
            \<or> ((\<forall>i<length departmentWeights. \<not> (\<exists>p q. n = p @ fst (departmentWeights ! i) @ q))
               \<and> department r = ''unknown''))))"
proof (intro conjI allI impI)
  show "analyzeJobTitle t = \<lparr>score = 0, level = ''unknown'', department = ''unknown''\<rparr>
      \<longleftrightarrow> t = None \<or> t = Some []"
  proof (cases t)
    case None
    then show ?thesis by (simp add: analyzeJobTitle_def)
  next
    case (Some s)
    show ?thesis
    proof (cases "s = []")
      case True
      with Some show ?thesis by (simp add: analyzeJobTitle_def)
    next
      case False
      have "level (analyzeJobTitle (Some s)) \<noteq> ''unknown''"
        using analyzeJobTitle_present(2)[OF False] levelOf_not_unknown by simp
      then have "analyzeJobTitle (Some s) \<noteq> \<lparr>score = 0, level = ''unknown'', department = ''unknown''\<rparr>"
        by auto
      with Some False show ?thesis by simp
    qed
  qed
next
  fix s assume ts: "t = Some s \<and> s \<noteq> []"
  then have ne: "s \<noteq> []" and t: "t = Some s" by simp_all
  let ?n = "toLowerCase s"
  have m: "matching ?n jobTitleWeights = {w. \<exists>k. (k, w) \<in> set jobTitleWeights \<and> (\<exists>p q. ?n = p @ k @ q)}"
    by (simp add: matching_def str_includes_iff)
  have d: "(case find (\<lambda>dw. str_includes ?n (fst dw)) departmentWeights of
              None \<Rightarrow> ''unknown'' | Some dw \<Rightarrow> fst dw) = department (analyzeJobTitle (Some s))"
    by (simp add: analyzeJobTitle_present(3)[OF ne] departmentLoop_find)
  show "let n = toLowerCase s; r = analyzeJobTitle t in
           score r = Max (insert 0 {w. \<exists>k. (k, w) \<in> set jobTitleWeights \<and> (\<exists>p q. n = p @ k @ q)})
         \<and> level r = (if score r \<ge> 90 then ''c_level''
                       else if score r \<ge> 80 then ''director''
                       else if score r \<ge> 65 then ''manager''
                       else if score r \<ge> 45 then ''specialist''
                       else ''individual_contributor'')
         \<and> ((\<exists>i<length departmentWeights.
                 (\<exists>p q. n = p @ fst (departmentWeights ! i) @ q)
               \<and> (\<forall>j<i. \<not> (\<exists>p q. n = p @ fst (departmentWeights ! j) @ q))
               \<and> department r = fst (departmentWeights ! i))
            \<or> ((\<forall>i<length departmentWeights. \<not> (\<exists>p q. n = p @ fst (departmentWeights ! i) @ q))
               \<and> department r = ''unknown''))"
    unfolding Let_def t
  proof (intro conjI)
    show "score (analyzeJobTitle (Some s)) =
        Max (insert 0 {w. \<exists>k. (k, w) \<in> set jobTitleWeights \<and> (\<exists>p q. ?n = p @ k @ q)})"
      using analyzeJobTitle_present(1)[OF ne] m by simp
    show "level (analyzeJobTitle (Some s)) =
        (if score (analyzeJobTitle (Some s)) \<ge> 90 then ''c_level''
         else if score (analyzeJobTitle (Some s)) \<ge> 80 then ''director''
         else if score (analyzeJobTitle (Some s)) \<ge> 65 then ''manager''
         else if score (analyzeJobTitle (Some s)) \<ge> 45 then ''specialist''
         else ''individual_contributor'')"
      using analyzeJobTitle_present(2)[OF ne] by (simp add: levelOf_def)
    show "(\<exists>i<length departmentWeights.
                 (\<exists>p q. ?n = p @ fst (departmentWeights ! i) @ q)
               \<and> (\<forall>j<i. \<not> (\<exists>p q. ?n = p @ fst (departmentWeights ! j) @ q))
               \<and> department (analyzeJobTitle (Some s)) = fst (departmentWeights ! i))
            \<or> ((\<forall>i<length departmentWeights. \<not> (\<exists>p q. ?n = p @ fst (departmentWeights ! i) @ q))
               \<and> department (analyzeJobTitle (Some s)) = ''unknown'')"
      using first_hit[OF d] unfolding str_includes_iff .
  qed
qed

text \<open>C5 at the title \<^verbatim>\<open>VP Sales\<close>.\<close>

theorem C5_analyzeJobTitle_witness:
  "Some ''VP Sales'' = Some ''VP Sales'' \<and> ''VP Sales'' \<noteq> []
   \<and> analyzeJobTitle (Some ''VP Sales'') \<noteq> \<lparr>score = 0, level = ''unknown'', department = ''unknown''\<rparr>
   \<and> level (analyzeJobTitle (Some ''VP Sales'')) = ''c_level''"
proof -
  have s: "score (analyzeJobTitle (Some ''VP Sales'')) = 90" by code_simp
  have "level (analyzeJobTitle (Some ''VP Sales'')) =
        (if score (analyzeJobTitle (Some ''VP Sales'')) \<ge> 90 then ''c_level''
         else if score (analyzeJobTitle (Some ''VP Sales'')) \<ge> 80 then ''director''
         else if score (analyzeJobTitle (Some ''VP Sales'')) \<ge> 65 then ''manager''
         else if score (analyzeJobTitle (Some ''VP Sales'')) \<ge> 45 then ''specialist''
         else ''individual_contributor'')"
    using C5_analyzeJobTitle[of "Some ''VP Sales''"] by (simp add: Let_def)
  moreover have "analyzeJobTitle (Some ''VP Sales'') \<noteq> \<lparr>score = 0, level = ''unknown'', department = ''unknown''\<rparr>"
    using C5_analyzeJobTitle[of "Some ''VP Sales''"] by simp
  ultimately show ?thesis using s by simp
qed

text \<open>
  C6: analyzeCompany scans the tiers in the order enterprise, large, medium, small, startup
  and returns the first one whose inclusive range contains the employee count, and
  \<^verbatim>\<open>startup\<close> with weight 40 when none does, as for a count that is absent, not a number,
  zero or negative. A positive integer count lies in exactly one range: 1 to 9 is startup,
  10 to 49 small, 50 to 249 medium, 250 to 999 large, 1000 and more enterprise.
\<close>

theorem C6_analyzeCompany:
  "(let e = numberOf (company.employees c); r = analyzeCompany c;
        contains = (\<lambda>td. js_ge e (fst (employee_range td)) \<and> js_le e (snd (employee_range td)))
    in map fst companyTiers = [''enterprise'', ''large'', ''medium'', ''small'', ''startup'']
     \<and> ((\<exists>i<length companyTiers.
             contains (snd (companyTiers ! i))
           \<and> (\<forall>j<i. \<not> contains (snd (companyTiers ! j)))
           \<and> tier r = fst (companyTiers ! i)
           \<and> companyAnalysis.weight r = tierData.weight (snd (companyTiers ! i)))
        \<or> ((\<forall>i<length companyTiers. \<not> contains (snd (companyTiers ! i)))
           \<and> tier r = ''startup'' \<and> companyAnalysis.weight r = 40))
     \<and> (e = NaN \<or> js_le e (Fin 0) \<longrightarrow> tier r = ''startup'' \<and> companyAnalysis.weight r = 40)
     \<and> (\<forall>n::nat. 0 < n \<and> e = Fin (of_nat n) \<longrightarrow>
          (\<exists>!i. i < length companyTiers \<and> contains (snd (companyTiers ! i)))
        \<and> tier r = (if n \<le> 9 then ''startup'' else if n \<le> 49 then ''small''
                     else if n \<le> 249 then ''medium'' else if n \<le> 999 then ''large''
                     else ''enterprise'')))"
proof -
  let ?e = "numberOf (company.employees c)"
  let ?r = "analyzeCompany c"
  have order: "map fst companyTiers = [''enterprise'', ''large'', ''medium'', ''small'', ''startup'']"
    by (simp add: companyTiers_def)
  have f: "(case find (\<lambda>nt. inRange ?e (snd nt)) companyTiers of
              None \<Rightarrow> (''startup'', 40) | Some nt \<Rightarrow> (fst nt, tierData.weight (snd nt)))
           = (tier ?r, companyAnalysis.weight ?r)"
    by (simp add: analyzeCompany_tier tierLoop_find)
  have first: "(\<exists>i<length companyTiers.
             inRange ?e (snd (companyTiers ! i))
           \<and> (\<forall>j<i. \<not> inRange ?e (snd (companyTiers ! j)))
           \<and> tier ?r = fst (companyTiers ! i)
           \<and> companyAnalysis.weight ?r = tierData.weight (snd (companyTiers ! i)))
        \<or> ((\<forall>i<length companyTiers. \<not> inRange ?e (snd (companyTiers ! i)))
           \<and> tier ?r = ''startup'' \<and> companyAnalysis.weight ?r = 40)"
    using first_hit[OF f] by simp
  have fallback: "?e = NaN \<or> js_le ?e (Fin 0) \<longrightarrow> tier ?r = ''startup'' \<and> companyAnalysis.weight ?r = 40"
    using no_tier_fallback by blast
  have part: "\<forall>n::nat. 0 < n \<and> ?e = Fin (of_nat n) \<longrightarrow>
          (\<exists>!i. i < length companyTiers \<and> inRange ?e (snd (companyTiers ! i)))
        \<and> tier ?r = (if n \<le> 9 then ''startup'' else if n \<le> 49 then ''small''
                     else if n \<le> 249 then ''medium'' else if n \<le> 999 then ''large''
                     else ''enterprise'')"
  proof (intro allI impI)
    fix n :: nat assume h: "0 < n \<and> ?e = Fin (of_nat n)"
    then have "company.employees c = Some (Fin (of_nat n))"
      by (cases "company.employees c") simp_all
    with h show "(\<exists>!i. i < length companyTiers \<and> inRange ?e (snd (companyTiers ! i)))
        \<and> tier ?r = (if n \<le> 9 then ''startup'' else if n \<le> 49 then ''small''
                     else if n \<le> 249 then ''medium'' else if n \<le> 999 then ''large''
                     else ''enterprise'')"
      using exactly_one_tier[of n] tier_of_nat[of c n] by simp
  qed
  from order first fallback part show ?thesis
    unfolding Let_def inRange_def by blast
qed

text \<open>C6 at a company of 25 employees.\<close>

theorem C6_analyzeCompany_witness:
  "(0::nat) < 25
   \<and> numberOf (company.employees \<lparr>name = None, employees = Some (Fin 25), industry = None, location = None\<rparr>)
       = Fin (of_nat 25)
   \<and> tier (analyzeCompany \<lparr>name = None, employees = Some (Fin 25), industry = None, location = None\<rparr>)
       = ''small''"
  using C6_analyzeCompany[of "\<lparr>name = None, employees = Some (Fin 25), industry = None, location = None\<rparr>"]
  by (simp add: Let_def)

text \<open>
  C7: the claim says that the totalScore is an integer between 0 and 100. For the industry
  \<^verbatim>\<open>constructor\<close> the lookup \<^verbatim>\<open>industryMultipliers[industryKey]\<close> finds the property
  inherited from \<^verbatim>\<open>Object.prototype\<close>, a function, which is truthy; the product with it is
  \<^verbatim>\<open>NaN\<close>, and so is the totalScore.
\<close>

theorem C7_inherited_industry_gives_nan:
  "calculateLeadScore (Some \<lparr>title = Some ''CEO''\<rparr>)
     (Some \<lparr>name = None, employees = Some (Fin 1500), industry = Some ''constructor'',
            location = None\<rparr>)
   = Inr \<lparr>totalScore = NaN,
           jobAnalysis = \<lparr>score = 100, level = ''c_level'', department = ''unknown''\<rparr>,
           companyAnalysis = \<lparr>tier = ''enterprise'', weight = 100, employees = Some (Fin 1500),
                               industry = ''constructor'', location = ''unknown''\<rparr>,
           priority = ''very_low''\<rparr>"
  by code_simp

text \<open>
  C8, as stated: a present industry or location is returned verbatim, and \<^verbatim>\<open>unknown\<close> only
  when the field is absent. This fails for a field that is present and empty, which is
  replaced by \<^verbatim>\<open>unknown\<close>.
\<close>

theorem C8_counterexample:
  "analyzeCompany \<lparr>name = None, employees = Some (Fin 25), industry = Some '''', location = Some ''''\<rparr>
   = \<lparr>tier = ''small'', weight = 55, employees = Some (Fin 25),
      industry = ''unknown'', location = ''unknown''\<rparr>"
  by code_simp

text \<open>
  C8, amended: a present and non-empty industry (respectively location) is returned verbatim,
  not lowercased; an absent or empty one is returned as \<^verbatim>\<open>unknown\<close>; the employees value
  is passed through unchanged.
\<close>

theorem C8_analyzeCompany_passthrough:
  "(\<forall>s. company.industry c = Some s \<and> s \<noteq> [] \<longrightarrow> companyAnalysis.industry (analyzeCompany c) = s)
   \<and> (company.industry c = None \<or> company.industry c = Some [] \<longrightarrow>
        companyAnalysis.industry (analyzeCompany c) = ''unknown'')
   \<and> (\<forall>s. company.location c = Some s \<and> s \<noteq> [] \<longrightarrow> companyAnalysis.location (analyzeCompany c) = s)
   \<and> (company.location c = None \<or> company.location c = Some [] \<longrightarrow>
        companyAnalysis.location (analyzeCompany c) = ''unknown'')
   \<and> companyAnalysis.employees (analyzeCompany c) = company.employees c"
  by (auto simp: analyzeCompany_def split_beta)

text \<open>C8, amended, at the industry \<^verbatim>\<open>SaaS\<close>.\<close>

theorem C8_analyzeCompany_passthrough_witness:
  "company.industry \<lparr>name = None, employees = Some (Fin 25), industry = Some ''SaaS'',
                     location = Some ''Austin, TX''\<rparr> = Some ''SaaS''
   \<and> ''SaaS'' \<noteq> []
   \<and> companyAnalysis.industry (analyzeCompany \<lparr>name = None, employees = Some (Fin 25),
        industry = Some ''SaaS'', location = Some ''Austin, TX''\<rparr>) = ''SaaS''"
  using C8_analyzeCompany_passthrough[of "\<lparr>name = None, employees = Some (Fin 25),
        industry = Some ''SaaS'', location = Some ''Austin, TX''\<rparr>"]
  by simp

text \<open>
  C9: generateInsights tests four conditions in a fixed order (level \<^verbatim>\<open>c_level\<close>, department
  \<^verbatim>\<open>sales\<close>, tier \<^verbatim>\<open>enterprise\<close>, totalScore at least 80) and each one that holds
  appends its fixed string, so the result has at most four entries. The department
  \<^verbatim>\<open>business development\<close> gets no sales insight, although its score is the one of
  \<^verbatim>\<open>sales\<close>.
\<close>

theorem C9_generateInsights:
  "generateInsights a =
       (if level (jobAnalysis a) = ''c_level''
        then [''High-value C-level executive - excellent decision-making authority''] else [])
     @ (if department (jobAnalysis a) = ''sales''
        then [''Sales professional - likely understands value of sales tools''] else [])
     @ (if tier (companyAnalysis a) = ''enterprise''
        then [''Large enterprise - potential for high-value deal''] else [])
     @ (if js_ge (totalScore a) (Fin 80)
        then [''Prime prospect - should be prioritized for immediate outreach''] else [])
   \<and> length (generateInsights a) \<le> 4
   \<and> (department (jobAnalysis a) = ''business development'' \<longrightarrow>
        ''Sales professional - likely understands value of sales tools'' \<notin> set (generateInsights a)
      \<and> cappedScore (jobAnalysis a) ca = cappedScore ((jobAnalysis a)\<lparr>department := ''sales''\<rparr>) ca)"
  by (simp add: generateInsights_def cappedScore_def Let_def)

text \<open>C9 at an analysis with department \<^verbatim>\<open>business development\<close>.\<close>

theorem C9_generateInsights_witness:
  "department (jobAnalysis \<lparr>totalScore = Fin 100,
       jobAnalysis = \<lparr>score = 100, level = ''c_level'', department = ''business development''\<rparr>,
       companyAnalysis = \<lparr>tier = ''enterprise'', weight = 100, employees = Some (Fin 1500),
                           industry = ''unknown'', location = ''unknown''\<rparr>,
       priority = ''high''\<rparr>) = ''business development''
   \<and> generateInsights \<lparr>totalScore = Fin 100,
       jobAnalysis = \<lparr>score = 100, level = ''c_level'', department = ''business development''\<rparr>,
       companyAnalysis = \<lparr>tier = ''enterprise'', weight = 100, employees = Some (Fin 1500),
                           industry = ''unknown'', location = ''unknown''\<rparr>,
       priority = ''high''\<rparr>
     = [''High-value C-level executive - excellent decision-making authority'',
        ''Large enterprise - potential for high-value deal'',
        ''Prime prospect - should be prioritized for immediate outreach'']"
  using C9_generateInsights[of "\<lparr>totalScore = Fin 100,
       jobAnalysis = \<lparr>score = 100, level = ''c_level'', department = ''business development''\<rparr>,
       companyAnalysis = \<lparr>tier = ''enterprise'', weight = 100, employees = Some (Fin 1500),
                           industry = ''unknown'', location = ''unknown''\<rparr>,
       priority = ''high''\<rparr>"]
  by (simp add: js_ge_def)

text \<open>
  C10: the claim says that an absent title gives the totalScore 0 for every company. For the
  industry \<^verbatim>\<open>__proto__\<close> the multiplier is the inherited prototype object, the product
  0 * \<^verbatim>\<open>NaN\<close> is \<^verbatim>\<open>NaN\<close>, and so is the totalScore.
\<close>

theorem C10_absent_title_inherited_industry:
  "calculateLeadScore (Some \<lparr>title = None\<rparr>)
     (Some \<lparr>name = None, employees = Some (Fin 25), industry = Some ''__proto__'',
            location = None\<rparr>)
   = Inr \<lparr>totalScore = NaN,
           jobAnalysis = \<lparr>score = 0, level = ''unknown'', department = ''unknown''\<rparr>,
           companyAnalysis = \<lparr>tier = ''small'', weight = 55, employees = Some (Fin 25),
                               industry = ''__proto__'', location = ''unknown''\<rparr>,
           priority = ''very_low''\<rparr>"
  by code_simp

end
